theory Spec2Isabelle
  imports Complex_Main
begin

section \<open>The projection engine of \<open>simulador_inteligente.py\<close>\<close>

text \<open>
  The simulator projects the balance of fixed-income products month by month, withholds
  the regressive income tax where the product is not exempt, and picks the product with
  the highest final balance.

  Numbers. The amounts and rates of the program are Python floats; they are read here as
  real numbers, as the specification does (\<open>real\<close>), so rounding is not part of the
  model. The number of months and the number of days are Python integers (\<open>int\<close>).
  The power \<open>x ** (1/12)\<close> is \<open>x powr (1/12)\<close>; the two agree for \<open>0 \<le> x\<close>. For a
  negative base Python leaves the floats (the result is a complex number, which \<open>max\<close>
  cannot compare), so the statements about the value of a rate and about the ranking
  carry the hypothesis that the base of the power is not negative. The form of the
  program only lets non-negative rates in.
  The indexer kind is the string the program compares with \<open>==\<close>.
\<close>

subsection \<open>Regressive income tax\<close>

definition obter_aliquota_ir :: "int \<Rightarrow> real" where
  "obter_aliquota_ir dias =
     (if dias \<le> 180 then 0.225
      else if dias \<le> 360 then 0.20
      else if dias \<le> 720 then 0.175
      else 0.15)"

subsection \<open>Monthly rate of an indexer\<close>

definition calcular_rentabilidade_mensal :: "string \<Rightarrow> real \<Rightarrow> real \<Rightarrow> real \<Rightarrow> real" where
  "calcular_rentabilidade_mensal tipo_rentabilidade taxa cdi_anual ipca_anual =
     (if tipo_rentabilidade = ''Prefixada'' then (1 + taxa) powr (1 / 12) - 1
      else if tipo_rentabilidade = ''CDI'' then (1 + cdi_anual) powr (1 / 12) - 1 * taxa
      else if tipo_rentabilidade = ''IPCA +'' then ((1 + ipca_anual) * (1 + taxa)) powr (1 / 12) - 1
      else 0)"

subsection \<open>Projection of one product\<close>

text \<open>
  The body of the loop \<open>for i in range(1, meses + 1)\<close>: the state is the pair of the
  running balance \<open>saldo\<close> and the list \<open>valores\<close>; the loop variable is not read.
\<close>

definition mes :: "real \<Rightarrow> real \<Rightarrow> int \<Rightarrow> real \<times> real list \<Rightarrow> real \<times> real list" where
  "mes rent_mensal aporte_mensal i = (\<lambda>(saldo, valores).
     (let saldo = saldo * (1 + rent_mensal);
          saldo = saldo + aporte_mensal
      in (saldo, valores @ [saldo])))"

text \<open>
  The function returns the tuple \<open>(saldo, valores, rendimento_bruto, rent_mensal)\<close>.
  \<open>range(1, meses + 1)\<close> is the list \<open>[1..meses]\<close>, empty when \<open>meses < 1\<close>. The
  variable \<open>total_rendimentos\<close> of the source is written once and never read.
\<close>

definition simular_valor_futuro ::
  "string \<Rightarrow> real \<Rightarrow> int \<Rightarrow> real \<Rightarrow> real \<Rightarrow> real \<Rightarrow> real \<Rightarrow> bool
     \<Rightarrow> real \<times> real list \<times> real \<times> real" where
  "simular_valor_futuro tipo_rentabilidade taxa meses aporte_inicial aporte_mensal
       cdi_anual ipca_anual isento_ir =
     (let rent_mensal = calcular_rentabilidade_mensal tipo_rentabilidade taxa cdi_anual ipca_anual;
          saldo = aporte_inicial;
          valores = [saldo];
          (saldo, valores) = fold (mes rent_mensal aporte_mensal) [1..meses] (saldo, valores);
          rendimento_bruto = saldo - (aporte_inicial + aporte_mensal * of_int meses)
      in if \<not> isento_ir then
           (let dias = meses * 30;
                aliquota = obter_aliquota_ir dias;
                imposto = rendimento_bruto * aliquota;
                saldo = saldo - imposto;
                rendimento_bruto = rendimento_bruto - imposto
            in (saldo, valores, rendimento_bruto, rent_mensal))
         else (saldo, valores, rendimento_bruto, rent_mensal))"

text \<open>The four components of the returned tuple, under the names the caller binds them to.\<close>

definition saldo_final :: "real \<times> real list \<times> real \<times> real \<Rightarrow> real" where
  "saldo_final r = fst r"

definition valores :: "real \<times> real list \<times> real \<times> real \<Rightarrow> real list" where
  "valores r = fst (snd r)"

definition rendimento_bruto :: "real \<times> real list \<times> real \<times> real \<Rightarrow> real" where
  "rendimento_bruto r = fst (snd (snd r))"

definition rentabilidade_mensal :: "real \<times> real list \<times> real \<times> real \<Rightarrow> real" where
  "rentabilidade_mensal r = snd (snd (snd r))"

subsection \<open>Simulating every product and choosing the best\<close>

record produto =
  nome :: string
  tipo :: string
  taxa :: real
  isento_ir :: bool

text \<open>
  The call of the loop over \<open>produtos\<close>: the product's fields are passed to
  \<open>simular_valor_futuro\<close> with the plan and the scenario.
\<close>

definition simular_produto ::
  "produto \<Rightarrow> int \<Rightarrow> real \<Rightarrow> real \<Rightarrow> real \<Rightarrow> real \<Rightarrow> real \<times> real list \<times> real \<times> real" where
  "simular_produto p meses aporte_inicial aporte_mensal cdi_anual ipca_anual =
     simular_valor_futuro (tipo p) (taxa p) meses aporte_inicial aporte_mensal
       cdi_anual ipca_anual (isento_ir p)"

text \<open>
  What the program can raise here: \<open>ValueError\<close> from \<open>max\<close> on an empty sequence and
  \<open>IndexError\<close> from an index past the end of a list.
\<close>

datatype py_error = ValueError | IndexError

text \<open>The colours of the chart: one per product of the program's own list.\<close>

definition cores :: "string list" where
  "cores = [''red'', ''blue'', ''green'']"

text \<open>
  The loop \<open>for idx, produto in enumerate(produtos)\<close>. Each pass simulates the product,
  appends the triple \<open>(nome, saldo_final, rendimento_bruto)\<close> to \<open>resultados\<close> and adds
  the product's trace to the chart with the colour \<open>cores[idx]\<close>. This lookup raises
  \<open>IndexError\<close> as soon as \<open>idx\<close> reaches the length of \<open>cores\<close>, which ends the program
  before the best option is chosen. The chart itself is not modelled.
\<close>

definition resultados ::
  "produto list \<Rightarrow> int \<Rightarrow> real \<Rightarrow> real \<Rightarrow> real \<Rightarrow> real
     \<Rightarrow> py_error + (string \<times> real \<times> real) list" where
  "resultados produtos meses aporte_inicial aporte_mensal cdi_anual ipca_anual =
     fold (\<lambda>(idx, p) acc.
            (case acc of
               Inl e \<Rightarrow> Inl e
             | Inr rs \<Rightarrow>
                 (let r = simular_produto p meses aporte_inicial aporte_mensal cdi_anual ipca_anual;
                      rs = rs @ [(nome p, saldo_final r, rendimento_bruto r)]
                  in if idx < length cores then Inr rs else Inl IndexError)))
          (enumerate 0 produtos) (Inr [])"

text \<open>
  Python's built-in \<open>max(xs, key=k)\<close>: it raises \<open>ValueError\<close> on an empty sequence;
  otherwise it keeps the first item and replaces it only by an item whose key is strictly
  greater.
\<close>

definition py_max :: "('a \<Rightarrow> real) \<Rightarrow> 'a list \<Rightarrow> py_error + 'a" where
  "py_max key xs =
     (case xs of
        [] \<Rightarrow> Inl ValueError
      | x # rest \<Rightarrow>
          Inr (fold (\<lambda>item maxitem. if key item > key maxitem then item else maxitem) rest x))"

text \<open>
  The best option is \<open>max(resultados, key=lambda x: x[1])\<close>: the key is the second
  component of a triple, the final balance. It is computed once the loop has ended
  without an error. The second best, which the program computes on the line after it and
  never shows, is not modelled.
\<close>

definition melhor :: "(string \<times> real \<times> real) list \<Rightarrow> py_error + (string \<times> real \<times> real)" where
  "melhor rs = py_max (\<lambda>x. fst (snd x)) rs"

section \<open>Auxiliary facts\<close>

text \<open>
  The loop in closed form: after the months of \<open>xs\<close> the balance is the monthly step
  iterated \<open>length xs\<close> times, and the list has gained every intermediate balance.
\<close>

lemma fold_mes:
  "fold (mes r a) xs (s, vs) =
     (((\<lambda>x. x * (1 + r) + a) ^^ length xs) s,
      vs @ map (\<lambda>k. ((\<lambda>x. x * (1 + r) + a) ^^ Suc k) s) [0..<length xs])"
proof (induction xs arbitrary: s vs)
  case Nil
  show ?case by simp
next
  case (Cons x xs)
  have up: "[0..<Suc (length xs)] = 0 # map Suc [0..<length xs]"
    by (simp add: upt_conv_Cons map_Suc_upt del: upt_Suc)
  have step: "mes r a x (s, vs) = (s * (1 + r) + a, vs @ [s * (1 + r) + a])"
    by (simp add: mes_def Let_def)
  show ?case
    by (simp add: step Cons.IH up funpow_Suc_right del: upt_Suc funpow.simps)
qed

lemma simular_valores:
  "valores (simular_valor_futuro tp tx meses ai am cdi ipca ise) =
     map (\<lambda>k. ((\<lambda>x. x * (1 + calcular_rentabilidade_mensal tp tx cdi ipca) + am) ^^ k) ai) [0..<Suc (nat meses)]"
proof -
  have up: "[0..<Suc (nat meses)] = 0 # map Suc [0..<nat meses]"
    by (simp add: upt_conv_Cons map_Suc_upt del: upt_Suc)
  show ?thesis
    by (simp add: simular_valor_futuro_def valores_def Let_def fold_mes up comp_def del: upt_Suc funpow.simps)
qed

lemma simular_rentabilidade:
  "rentabilidade_mensal (simular_valor_futuro tp tx meses ai am cdi ipca ise) =
     calcular_rentabilidade_mensal tp tx cdi ipca"
  by (simp add: simular_valor_futuro_def rentabilidade_mensal_def Let_def split: prod.splits)

lemma valores_nth:
  assumes "i \<le> nat meses"
  shows "valores (simular_valor_futuro tp tx meses ai am cdi ipca ise) ! i =
     ((\<lambda>x. x * (1 + calcular_rentabilidade_mensal tp tx cdi ipca) + am) ^^ i) ai"
proof -
  from assms have "i < length [0..<Suc (nat meses)]" by simp
  then show ?thesis
    unfolding simular_valores by (simp del: upt_Suc funpow.simps)
qed

lemma valores_length:
  "length (valores (simular_valor_futuro tp tx meses ai am cdi ipca ise)) = nat meses + 1"
  by (simp add: simular_valores del: upt_Suc)

lemma valores_last:
  "last (valores (simular_valor_futuro tp tx meses ai am cdi ipca ise)) =
     ((\<lambda>x. x * (1 + calcular_rentabilidade_mensal tp tx cdi ipca) + am) ^^ nat meses) ai"
proof -
  have "valores (simular_valor_futuro tp tx meses ai am cdi ipca ise) \<noteq> []"
    using valores_length [of tp tx meses ai am cdi ipca ise] by auto
  then show ?thesis
    by (simp add: last_conv_nth valores_length valores_nth del: funpow.simps)
qed

lemma simular_saldo_final:
  "saldo_final (simular_valor_futuro tp tx meses ai am cdi ipca ise) =
     (let s = last (valores (simular_valor_futuro tp tx meses ai am cdi ipca ise));
          g = s - (ai + am * of_int meses)
      in if ise then s else s - g * obter_aliquota_ir (meses * 30))"
  by (simp add: valores_last)
     (simp add: simular_valor_futuro_def saldo_final_def Let_def fold_mes)

lemma simular_rendimento_bruto:
  "rendimento_bruto (simular_valor_futuro tp tx meses ai am cdi ipca ise) =
     (let s = last (valores (simular_valor_futuro tp tx meses ai am cdi ipca ise));
          g = s - (ai + am * of_int meses)
      in if ise then g else g - g * obter_aliquota_ir (meses * 30))"
  by (simp add: valores_last)
     (simp add: simular_valor_futuro_def rendimento_bruto_def Let_def fold_mes)

text \<open>With non-negative rate, contribution and balance, a month never lowers the balance.\<close>

lemma funpow_juros_nonneg:
  fixes r a x :: real
  assumes "0 \<le> r" "0 \<le> a" "0 \<le> x"
  shows "0 \<le> ((\<lambda>x. x * (1 + r) + a) ^^ k) x"
proof (induction k)
  case 0
  from assms(3) show ?case by simp
next
  case (Suc k)
  from assms(1) have "0 \<le> 1 + r" by simp
  with Suc have "0 \<le> ((\<lambda>x. x * (1 + r) + a) ^^ k) x * (1 + r)"
    by (rule mult_nonneg_nonneg)
  with assms(2) show ?case by simp
qed

lemma funpow_juros_mono:
  fixes r a x :: real
  assumes "0 \<le> r" "0 \<le> a" "0 \<le> x"
  shows "((\<lambda>x. x * (1 + r) + a) ^^ k) x \<le> ((\<lambda>x. x * (1 + r) + a) ^^ Suc k) x"
proof -
  let ?y = "((\<lambda>x. x * (1 + r) + a) ^^ k) x"
  have "0 \<le> ?y" using assms by (rule funpow_juros_nonneg)
  with assms(1) have "0 \<le> ?y * r" by (rule mult_nonneg_nonneg [rotated])
  with assms(2) have "?y \<le> ?y * (1 + r) + a" by (simp add: algebra_simps)
  then show ?thesis by simp
qed

text \<open>
  The loop of \<open>max\<close> ends on the first item whose key no other item exceeds.
\<close>

lemma fold_resultados_raised:
  "fold (\<lambda>(idx, p) acc.
           (case acc of
              Inl e \<Rightarrow> Inl e
            | Inr rs \<Rightarrow>
                (if idx < length cores then Inr (rs @ [g p]) else Inl IndexError)))
        ips (Inl e) = Inl e"
  by (induction ips) (simp_all split: prod.splits)

lemma fold_resultados:
  assumes "n \<le> length cores"
  shows "fold (\<lambda>(idx, p) acc.
           (case acc of
              Inl e \<Rightarrow> Inl e
            | Inr rs \<Rightarrow>
                (if idx < length cores then Inr (rs @ [g p]) else Inl IndexError)))
        (enumerate n ps) (Inr acc)
     = (if n + length ps \<le> length cores then Inr (acc @ map g ps) else Inl IndexError)"
  using assms
proof (induction ps arbitrary: n acc)
  case Nil
  then show ?case by simp
next
  case (Cons p ps)
  show ?case
  proof (cases "n < length cores")
    case True
    then have "Suc n \<le> length cores" by simp
    from Cons.IH [OF this] True show ?thesis by simp
  next
    case False
    then show ?thesis
      by (simp add: fold_resultados_raised)
  qed
qed

lemma resultados_map:
  "resultados produtos meses ai am cdi ipca =
     (if length produtos \<le> length cores
      then Inr (map (\<lambda>p. (nome p, saldo_final (simular_produto p meses ai am cdi ipca),
                          rendimento_bruto (simular_produto p meses ai am cdi ipca))) produtos)
      else Inl IndexError)"
  unfolding resultados_def Let_def
  by (simp add: fold_resultados)

lemma fold_max_first:
  fixes key :: "'a \<Rightarrow> real"
  shows "\<exists>i<length (x # rest).
           fold (\<lambda>item maxitem. if key item > key maxitem then item else maxitem) rest x
             = (x # rest) ! i \<and>
           (\<forall>j<length (x # rest). key ((x # rest) ! j) \<le> key ((x # rest) ! i)) \<and>
           (\<forall>j<i. key ((x # rest) ! j) < key ((x # rest) ! i))"
proof (induction rest rule: rev_induct)
  case Nil
  show ?case by simp
next
  case (snoc y ys)
  let ?f = "\<lambda>item maxitem. if key item > key maxitem then item else maxitem"
  let ?xs = "x # ys"
  from snoc obtain i where i: "i < length ?xs"
    and m: "fold ?f ys x = ?xs ! i"
    and ub: "\<forall>j<length ?xs. key (?xs ! j) \<le> key (?xs ! i)"
    and lt: "\<forall>j<i. key (?xs ! j) < key (?xs ! i)"
    by blast
  have app: "x # ys @ [y] = ?xs @ [y]" by simp
  have old: "(?xs @ [y]) ! j = ?xs ! j" if "j < length ?xs" for j
    using that by (simp only: nth_append if_True)
  have new: "(?xs @ [y]) ! length ?xs = y"
    by (simp only: nth_append_length)
  have len: "length (?xs @ [y]) = Suc (length ?xs)" by simp
  show ?case
  proof (cases "key y > key (?xs ! i)")
    case True
    have res: "fold ?f (ys @ [y]) x = y"
      using True m by simp
    have all: "key ((?xs @ [y]) ! j) \<le> key y" if "j < length (?xs @ [y])" for j
    proof -
      from that consider "j < length ?xs" | "j = length ?xs" unfolding len by linarith
      then show ?thesis
      proof cases
        case 1
        with ub have "key (?xs ! j) \<le> key (?xs ! i)" by blast
        with True show ?thesis unfolding old [OF 1] by linarith
      next
        case 2
        show ?thesis unfolding 2 new by simp
      qed
    qed
    have before: "key ((?xs @ [y]) ! j) < key y" if "j < length ?xs" for j
    proof -
      from ub that have "key (?xs ! j) \<le> key (?xs ! i)" by blast
      with True show ?thesis unfolding old [OF that] by linarith
    qed
    have "length ?xs < length (x # ys @ [y])" by simp
    moreover have "fold ?f (ys @ [y]) x = (x # ys @ [y]) ! length ?xs"
      unfolding app new by (rule res)
    moreover have "\<forall>j<length (x # ys @ [y]).
        key ((x # ys @ [y]) ! j) \<le> key ((x # ys @ [y]) ! length ?xs)"
      unfolding app new using all by blast
    moreover have "\<forall>j<length ?xs. key ((x # ys @ [y]) ! j) < key ((x # ys @ [y]) ! length ?xs)"
      unfolding app new using before by blast
    ultimately show ?thesis by blast
  next
    case False
    have res: "fold ?f (ys @ [y]) x = ?xs ! i"
      using False m by simp
    have all: "key ((?xs @ [y]) ! j) \<le> key (?xs ! i)" if "j < length (?xs @ [y])" for j
    proof -
      from that consider "j < length ?xs" | "j = length ?xs" unfolding len by linarith
      then show ?thesis
      proof cases
        case 1
        with ub show ?thesis unfolding old [OF 1] by blast
      next
        case 2
        from False show ?thesis unfolding 2 new by linarith
      qed
    qed
    have before: "key ((?xs @ [y]) ! j) < key (?xs ! i)" if "j < i" for j
    proof -
      from that i have j: "j < length ?xs" by linarith
      from lt that show ?thesis unfolding old [OF j] by blast
    qed
    have "i < length (x # ys @ [y])" using i by simp
    moreover have "fold ?f (ys @ [y]) x = (x # ys @ [y]) ! i"
      unfolding app old [OF i] by (rule res)
    moreover have "\<forall>j<length (x # ys @ [y]). key ((x # ys @ [y]) ! j) \<le> key ((x # ys @ [y]) ! i)"
      unfolding app old [OF i] using all by blast
    moreover have "\<forall>j<i. key ((x # ys @ [y]) ! j) < key ((x # ys @ [y]) ! i)"
      unfolding app old [OF i] using before by blast
    ultimately show ?thesis by blast
  qed
qed

lemma py_max_first:
  fixes key :: "'a \<Rightarrow> real"
  assumes "xs \<noteq> []"
  shows "\<exists>i<length xs. py_max key xs = Inr (xs ! i) \<and>
           (\<forall>j<length xs. key (xs ! j) \<le> key (xs ! i)) \<and>
           (\<forall>j<i. key (xs ! j) < key (xs ! i))"
proof -
  from assms obtain x rest where xs: "xs = x # rest" by (cases xs) auto
  show ?thesis
    unfolding xs py_max_def using fold_max_first [of x rest key] by simp
qed

section \<open>The tax table\<close>

text \<open>
  C6. At the bracket boundaries the rate is 0.225 at 180 days, 0.20 at 181 and 360, 0.175
  at 361 and 720, and 0.15 at 721. The function has no failing branch: it is defined on
  every integer, so on every non-negative one.
\<close>

theorem obter_aliquota_ir_boundaries:
  "obter_aliquota_ir 180 = 0.225 \<and> obter_aliquota_ir 181 = 0.20 \<and>
   obter_aliquota_ir 360 = 0.20 \<and> obter_aliquota_ir 361 = 0.175 \<and>
   obter_aliquota_ir 720 = 0.175 \<and> obter_aliquota_ir 721 = 0.15"
  by (simp add: obter_aliquota_ir_def)

text \<open>
  C10. The rate is always one of 0.225, 0.20, 0.175 and 0.15, and it does not increase
  with the number of days: for \<open>d1 \<le> d2\<close> the rate at \<open>d2\<close> is at most the rate at \<open>d1\<close>.
\<close>

theorem obter_aliquota_ir_range_antimono:
  "obter_aliquota_ir d \<in> {0.225, 0.20, 0.175, 0.15} \<and>
   (d1 \<le> d2 \<longrightarrow> obter_aliquota_ir d2 \<le> obter_aliquota_ir d1)"
  by (simp add: obter_aliquota_ir_def)

theorem obter_aliquota_ir_range_antimono_witness:
  "obter_aliquota_ir 100 \<in> {0.225, 0.20, 0.175, 0.15} \<and>
   ((100::int) \<le> 400 \<and> obter_aliquota_ir 400 \<le> obter_aliquota_ir 100) \<and>
   obter_aliquota_ir 400 = 0.175 \<and> obter_aliquota_ir 100 = 0.225"
  using obter_aliquota_ir_range_antimono [of 100 100 400]
  by (simp add: obter_aliquota_ir_def)

section \<open>The monthly rate\<close>

text \<open>
  C3. For a CDI-linked product the monthly rate is the twelfth root of \<open>1 + cdi_anual\<close>
  minus the rate parameter itself: \<open>1 * taxa\<close> binds tighter than the subtraction, so
  the whole annual CDI is converted to a monthly factor and \<open>taxa\<close> is subtracted from
  it. The scenario's CDI is at least \<open>-1\<close> (the form only gives non-negative values),
  which keeps the power real.
\<close>

theorem calcular_cdi:
  assumes "- 1 \<le> cdi_anual"
  shows "calcular_rentabilidade_mensal ''CDI'' tx cdi_anual ipca_anual
           = (1 + cdi_anual) powr (1 / 12) - tx"
  by (simp add: calcular_rentabilidade_mensal_def)

theorem calcular_cdi_witness:
  "- 1 \<le> (0::real) \<and> calcular_rentabilidade_mensal ''CDI'' 0.94 0 0.045 = 1 - 0.94"
  using calcular_cdi [of 0 "0.94" "0.045"] by simp

text \<open>
  C7. For a non-negative rate, a prefixed product has the monthly rate
  \<open>(1 + taxa) powr (1/12) - 1\<close>, the same under any two scenarios, and an IPCA-linked
  product has \<open>((1 + ipca_anual) * (1 + taxa)) powr (1/12) - 1\<close>. The scenario's IPCA is at
  least \<open>-1\<close>, which keeps the power real.
\<close>

theorem calcular_prefixada_ipca:
  assumes "0 \<le> tx"
  shows "calcular_rentabilidade_mensal ''Prefixada'' tx cdi_anual ipca_anual
           = (1 + tx) powr (1 / 12) - 1 \<and>
         calcular_rentabilidade_mensal ''Prefixada'' tx cdi_anual ipca_anual
           = calcular_rentabilidade_mensal ''Prefixada'' tx cdi_anual' ipca_anual' \<and>
         (- 1 \<le> ipca_anual \<longrightarrow>
            calcular_rentabilidade_mensal ''IPCA +'' tx cdi_anual ipca_anual
              = ((1 + ipca_anual) * (1 + tx)) powr (1 / 12) - 1)"
  by (simp add: calcular_rentabilidade_mensal_def)

theorem calcular_prefixada_ipca_witness:
  "(0::real) \<le> 4095 \<and> (0::real) \<le> 63 \<and> - 1 \<le> (63::real) \<and>
   calcular_rentabilidade_mensal ''Prefixada'' 4095 0.1375 0.045 = 1 \<and>
   calcular_rentabilidade_mensal ''Prefixada'' 4095 0.1375 0.045
     = calcular_rentabilidade_mensal ''Prefixada'' 4095 0.02 0.3 \<and>
   calcular_rentabilidade_mensal ''IPCA +'' 63 0.1375 63 = 1"
proof -
  have "(4096::real) powr (1 / 12) = (2 powr 12) powr (1 / 12)" by simp
  also have "\<dots> = 2" unfolding powr_powr by simp
  finally have r: "(4096::real) powr (1 / 12) = 2" .
  from r calcular_prefixada_ipca [of 4095 "0.1375" "0.045" "0.02" "0.3"]
    calcular_prefixada_ipca [of 63 "0.1375" 63 "0.02" "0.3"]
  show ?thesis by simp
qed

text \<open>
  C5. An indexer kind that is none of \<open>Prefixada\<close>, \<open>CDI\<close> and \<open>IPCA +\<close> takes the last
  branch of the function: the monthly rate is 0 and nothing is raised. The kind \<open>Selic\<close>
  shows it.
\<close>

theorem calcular_unknown_kind:
  assumes "tp \<notin> {''Prefixada'', ''CDI'', ''IPCA +''}"
  shows "calcular_rentabilidade_mensal tp tx cdi ipca = 0"
  using assms by (simp add: calcular_rentabilidade_mensal_def)

theorem calcular_unknown_kind_witness:
  "''Poupanca'' \<notin> {''Prefixada'', ''CDI'', ''IPCA +''} \<and>
   calcular_rentabilidade_mensal ''Poupanca'' 0.06 0.1375 0.045 = 0"
proof -
  have h: "''Poupanca'' \<notin> {''Prefixada'', ''CDI'', ''IPCA +''}" by simp
  from calcular_unknown_kind [OF h] h show ?thesis by blast
qed

theorem calcular_unknown_kind_counterexample:
  "calcular_rentabilidade_mensal ''Selic'' 0.1 0.1375 0.045 = 0"
  by (simp add: calcular_rentabilidade_mensal_def)

section \<open>The projection\<close>

text \<open>
  C1. For at least one month, the returned list starts with the initial deposit, has
  \<open>meses + 1\<close> elements, and each later element is the one before it times one plus
  the returned monthly rate, plus the monthly contribution.
\<close>

theorem simular_trajectory:
  assumes "1 \<le> meses"
    and "simular_valor_futuro tp tx meses ai am cdi ipca ise = (sf, vs, rb, rm)"
  shows "vs ! 0 = ai \<and> length vs = nat meses + 1 \<and>
         (\<forall>i\<in>{1..nat meses}. vs ! i = vs ! (i - 1) * (1 + rm) + am)"
proof -
  let ?R = "simular_valor_futuro tp tx meses ai am cdi ipca ise"
  have vs: "vs = valores ?R" and rm: "rm = calcular_rentabilidade_mensal tp tx cdi ipca"
    using assms(2) simular_rentabilidade [of tp tx meses ai am cdi ipca ise]
    by (simp_all add: valores_def rentabilidade_mensal_def)
  have a: "vs ! 0 = ai"
    unfolding vs by (simp add: valores_nth)
  have b: "length vs = nat meses + 1"
    unfolding vs by (rule valores_length)
  have c: "vs ! i = vs ! (i - 1) * (1 + rm) + am" if "i \<in> {1..nat meses}" for i
  proof -
    from that obtain k where k: "i = Suc k" and le: "Suc k \<le> nat meses"
      by (cases i) auto
    from le have le': "k \<le> nat meses" by simp
    show ?thesis
      unfolding vs k rm by (simp add: valores_nth [OF le] valores_nth [OF le'])
  qed
  from a b c show ?thesis by blast
qed

theorem simular_trajectory_witness:
  "(1::int) \<le> 2 \<and>
   simular_valor_futuro ''CDI'' 0.9 2 1000 500 0 0.045 True = (2260, [1000, 1600, 2260], 260, 0.1) \<and>
   [1000, 1600, 2260 :: real] ! 0 = 1000 \<and> length [1000, 1600, 2260 :: real] = nat 2 + 1 \<and>
   [1000, 1600, 2260 :: real] ! 1 = [1000, 1600, 2260] ! 0 * (1 + 0.1) + 500 \<and>
   [1000, 1600, 2260 :: real] ! 2 = [1000, 1600, 2260] ! 1 * (1 + 0.1) + 500"
proof -
  have h: "(1::int) \<le> 2" by simp
  have e: "simular_valor_futuro ''CDI'' 0.9 2 1000 500 0 0.045 True
             = (2260, [1000, 1600, 2260], 260, 0.1)"
    by (simp add: simular_valor_futuro_def calcular_rentabilidade_mensal_def mes_def Let_def
        upto_rec1)
  from simular_trajectory [OF h e] h e show ?thesis by simp
qed

text \<open>
  C2. For an exempt product the final balance is the last element of the list. For a
  taxed product it is the last element minus the gain before tax times the rate of
  \<open>meses * 30\<close> days, where the gain before tax is the last element minus the deposit and
  all contributions; the gain the function reports is then the gain before tax minus that
  tax.
\<close>

theorem simular_tax:
  assumes "simular_valor_futuro tp tx meses ai am cdi ipca ise = (sf, vs, rb, rm)"
  shows "(ise \<longrightarrow> sf = last vs) \<and>
         (\<not> ise \<longrightarrow>
            sf = last vs - (last vs - (ai + am * of_int meses)) * obter_aliquota_ir (meses * 30) \<and>
            rb = (last vs - (ai + am * of_int meses))
                 - (last vs - (ai + am * of_int meses)) * obter_aliquota_ir (meses * 30))"
proof -
  let ?R = "simular_valor_futuro tp tx meses ai am cdi ipca ise"
  have sf: "sf = saldo_final ?R" and vs: "vs = valores ?R" and rb: "rb = rendimento_bruto ?R"
    using assms by (simp_all add: saldo_final_def valores_def rendimento_bruto_def)
  show ?thesis
    unfolding sf rb simular_saldo_final simular_rendimento_bruto
    by (simp add: Let_def vs)
qed

theorem simular_tax_witness:
  "simular_valor_futuro ''CDI'' 0.9 2 1000 500 0 0.045 True = (2260, [1000, 1600, 2260], 260, 0.1) \<and>
   (2260::real) = last [1000, 1600, 2260] \<and>
   simular_valor_futuro ''CDI'' 0.9 2 1000 500 0 0.045 False
     = (2201.5, [1000, 1600, 2260], 201.5, 0.1) \<and>
   (2201.5::real) = last [1000, 1600, 2260] - (last [1000, 1600, 2260] - (1000 + 500 * of_int 2))
       * obter_aliquota_ir (2 * 30) \<and>
   (201.5::real) = (last [1000, 1600, 2260] - (1000 + 500 * of_int 2))
       - (last [1000, 1600, 2260] - (1000 + 500 * of_int 2)) * obter_aliquota_ir (2 * 30)"
proof -
  have e: "simular_valor_futuro ''CDI'' 0.9 2 1000 500 0 0.045 True
             = (2260, [1000, 1600, 2260], 260, 0.1)"
    by (simp add: simular_valor_futuro_def calcular_rentabilidade_mensal_def mes_def Let_def
        upto_rec1)
  have t: "simular_valor_futuro ''CDI'' 0.9 2 1000 500 0 0.045 False
             = (2201.5, [1000, 1600, 2260], 201.5, 0.1)"
    by (simp add: simular_valor_futuro_def calcular_rentabilidade_mensal_def mes_def Let_def
        upto_rec1 obter_aliquota_ir_def)
  from simular_tax [OF e] simular_tax [OF t] e t show ?thesis by simp
qed

text \<open>
  C4. With zero months the function raises nothing: it returns the one-element list of
  the initial deposit, this deposit as final balance and a gain of 0, exempt or not. The
  prefixed product of the program shows it.
\<close>

theorem simular_zero_months:
  "simular_valor_futuro tp tx 0 ai am cdi ipca ise
     = (ai, [ai], 0, calcular_rentabilidade_mensal tp tx cdi ipca)"
  by (simp add: simular_valor_futuro_def Let_def)

theorem simular_zero_months_counterexample:
  "simular_valor_futuro ''Prefixada'' 0.1175 0 1000 500 0.1375 0.045 False
     = (1000, [1000], 0, (1 + 0.1175) powr (1 / 12) - 1)"
  by (simp add: simular_valor_futuro_def calcular_rentabilidade_mensal_def Let_def)


text \<open>
  C8. When the returned monthly rate and the monthly contribution are not negative, the
  list never decreases from one month to the next. The initial deposit is not negative
  either: the contribution plan of the specification and the form of the program only
  have non-negative deposits.
\<close>

theorem simular_monotone:
  assumes "0 \<le> rm" and "0 \<le> am" and "0 \<le> ai"
    and "simular_valor_futuro tp tx meses ai am cdi ipca ise = (sf, vs, rb, rm)"
  shows "\<forall>i\<in>{1..nat meses}. vs ! (i - 1) \<le> vs ! i"
proof
  fix i assume i: "i \<in> {1..nat meses}"
  let ?R = "simular_valor_futuro tp tx meses ai am cdi ipca ise"
  have vs: "vs = valores ?R" and rm: "rm = calcular_rentabilidade_mensal tp tx cdi ipca"
    using assms(4) simular_rentabilidade [of tp tx meses ai am cdi ipca ise]
    by (simp_all add: valores_def rentabilidade_mensal_def)
  from i obtain k where k: "i = Suc k" and le: "Suc k \<le> nat meses"
    by (cases i) auto
  from le have le': "k \<le> nat meses" by simp
  have "0 \<le> calcular_rentabilidade_mensal tp tx cdi ipca"
    using assms(1) rm by simp
  from funpow_juros_mono [OF this assms(2) assms(3), of k]
  show "vs ! (i - 1) \<le> vs ! i"
    unfolding vs k by (simp add: valores_nth [OF le] valores_nth [OF le'])
qed

theorem simular_monotone_witness:
  "(0::real) \<le> 0.1 \<and> (0::real) \<le> 500 \<and> (0::real) \<le> 1000 \<and>
   simular_valor_futuro ''CDI'' 0.9 2 1000 500 0 0.045 True = (2260, [1000, 1600, 2260], 260, 0.1) \<and>
   [1000, 1600, 2260 :: real] ! 0 \<le> [1000, 1600, 2260] ! 1 \<and>
   [1000, 1600, 2260 :: real] ! 1 \<le> [1000, 1600, 2260] ! 2"
proof -
  have e: "simular_valor_futuro ''CDI'' 0.9 2 1000 500 0 0.045 True
             = (2260, [1000, 1600, 2260], 260, 0.1)"
    by (simp add: simular_valor_futuro_def calcular_rentabilidade_mensal_def mes_def Let_def
        upto_rec1)
  have h: "(0::real) \<le> 0.1" "(0::real) \<le> 500" "(0::real) \<le> 1000" by simp_all
  from simular_monotone [OF h e] h e show ?thesis by simp
qed

section \<open>The best product\<close>

text \<open>
  C9. For a non-empty list of at most three products, one per colour of the chart, the
  loop ends without an error and the chosen result is the triple of a product whose final
  balance no other product of the list exceeds, while every product before it in the list
  has a strictly smaller final balance: among equal maxima the earliest wins. The rates
  of the products and of the scenario are not negative, so that every final balance is a
  real number. In the example the two exempt products tie and the first of them is
  chosen. With a fourth product the loop raises \<open>IndexError\<close> at the colour of its
  trace, and no best option is chosen at all.
\<close>

theorem melhor_first_maximum:
  assumes "produtos \<noteq> []" and "length produtos \<le> length cores"
    and "\<forall>p\<in>set produtos. 0 \<le> taxa p" and "0 \<le> cdi" and "0 \<le> ipca"
  shows "\<exists>rs. resultados produtos meses ai am cdi ipca = Inr rs \<and>
           (\<exists>i<length produtos.
              melhor rs
                = Inr (nome (produtos ! i),
                       saldo_final (simular_produto (produtos ! i) meses ai am cdi ipca),
                       rendimento_bruto (simular_produto (produtos ! i) meses ai am cdi ipca)) \<and>
              (\<forall>j<length produtos.
                 saldo_final (simular_produto (produtos ! j) meses ai am cdi ipca)
                   \<le> saldo_final (simular_produto (produtos ! i) meses ai am cdi ipca)) \<and>
              (\<forall>j<i.
                 saldo_final (simular_produto (produtos ! j) meses ai am cdi ipca)
                   < saldo_final (simular_produto (produtos ! i) meses ai am cdi ipca)))"
proof -
  let ?g = "\<lambda>p. (nome p, saldo_final (simular_produto p meses ai am cdi ipca),
                  rendimento_bruto (simular_produto p meses ai am cdi ipca))"
  let ?rs = "map ?g produtos"
  let ?key = "\<lambda>x :: string \<times> real \<times> real. fst (snd x)"
  have res: "resultados produtos meses ai am cdi ipca = Inr ?rs"
    using assms(2) by (simp only: resultados_map if_True)
  from assms(1) have "?rs \<noteq> []" by simp
  from py_max_first [OF this, of ?key]
  obtain i where i: "i < length ?rs"
    and m: "py_max ?key ?rs = Inr (?rs ! i)"
    and ub: "\<forall>j<length ?rs. ?key (?rs ! j) \<le> ?key (?rs ! i)"
    and lt: "\<forall>j<i. ?key (?rs ! j) < ?key (?rs ! i)"
    by blast
  from i have i': "i < length produtos" by simp
  have nth: "?rs ! j = ?g (produtos ! j)" if "j < length produtos" for j
    using that by (rule nth_map)
  have best: "melhor ?rs = Inr (?g (produtos ! i))"
    unfolding melhor_def m nth [OF i'] by (rule refl)
  have all: "\<forall>j<length produtos.
      saldo_final (simular_produto (produtos ! j) meses ai am cdi ipca)
        \<le> saldo_final (simular_produto (produtos ! i) meses ai am cdi ipca)"
  proof (intro allI impI)
    fix j assume j: "j < length produtos"
    then have "?key (?rs ! j) \<le> ?key (?rs ! i)" using ub by simp
    then show "saldo_final (simular_produto (produtos ! j) meses ai am cdi ipca)
        \<le> saldo_final (simular_produto (produtos ! i) meses ai am cdi ipca)"
      unfolding nth [OF j] nth [OF i'] by simp
  qed
  have before: "\<forall>j<i.
      saldo_final (simular_produto (produtos ! j) meses ai am cdi ipca)
        < saldo_final (simular_produto (produtos ! i) meses ai am cdi ipca)"
  proof (intro allI impI)
    fix j assume ji: "j < i"
    with i' have j: "j < length produtos" by linarith
    from ji lt have "?key (?rs ! j) < ?key (?rs ! i)" by blast
    then show "saldo_final (simular_produto (produtos ! j) meses ai am cdi ipca)
        < saldo_final (simular_produto (produtos ! i) meses ai am cdi ipca)"
      unfolding nth [OF j] nth [OF i'] by simp
  qed
  from res best all before i' show ?thesis by blast
qed

theorem melhor_first_maximum_witness:
  "[\<lparr>nome = ''CDB'', tipo = ''CDI'', taxa = 0.9, isento_ir = False\<rparr>,
    \<lparr>nome = ''LCI A'', tipo = ''CDI'', taxa = 0.9, isento_ir = True\<rparr>,
    \<lparr>nome = ''LCI B'', tipo = ''CDI'', taxa = 0.9, isento_ir = True\<rparr>] \<noteq> [] \<and>
   length [\<lparr>nome = ''CDB'', tipo = ''CDI'', taxa = 0.9, isento_ir = False\<rparr>,
     \<lparr>nome = ''LCI A'', tipo = ''CDI'', taxa = 0.9, isento_ir = True\<rparr>,
     \<lparr>nome = ''LCI B'', tipo = ''CDI'', taxa = 0.9, isento_ir = True\<rparr>] \<le> length cores \<and>
   0 \<le> taxa \<lparr>nome = ''CDB'', tipo = ''CDI'', taxa = 0.9, isento_ir = False\<rparr> \<and>
   0 \<le> taxa \<lparr>nome = ''LCI A'', tipo = ''CDI'', taxa = 0.9, isento_ir = True\<rparr> \<and>
   0 \<le> taxa \<lparr>nome = ''LCI B'', tipo = ''CDI'', taxa = 0.9, isento_ir = True\<rparr> \<and>
   (0::real) \<le> 0 \<and> (0::real) \<le> 0.045 \<and>
   resultados
       [\<lparr>nome = ''CDB'', tipo = ''CDI'', taxa = 0.9, isento_ir = False\<rparr>,
        \<lparr>nome = ''LCI A'', tipo = ''CDI'', taxa = 0.9, isento_ir = True\<rparr>,
        \<lparr>nome = ''LCI B'', tipo = ''CDI'', taxa = 0.9, isento_ir = True\<rparr>] 2 1000 500 0 0.045
     = Inr [(''CDB'', 2201.5, 201.5), (''LCI A'', 2260, 260), (''LCI B'', 2260, 260)] \<and>
   melhor [(''CDB'', 2201.5, 201.5), (''LCI A'', 2260, 260), (''LCI B'', 2260, 260)]
     = Inr (''LCI A'', 2260, 260)"
proof -
  let ?a = "\<lparr>nome = ''CDB'', tipo = ''CDI'', taxa = 0.9, isento_ir = False\<rparr>"
  let ?b = "\<lparr>nome = ''LCI A'', tipo = ''CDI'', taxa = 0.9, isento_ir = True\<rparr>"
  let ?c = "\<lparr>nome = ''LCI B'', tipo = ''CDI'', taxa = 0.9, isento_ir = True\<rparr>"
  let ?ps = "[?a, ?b, ?c]"
  let ?sim = "\<lambda>p. simular_produto p 2 1000 500 0 0.045"
  let ?out = "[(''CDB'', 2201.5, 201.5), (''LCI A'', 2260, 260), (''LCI B'', 2260, 260 :: real)]
                :: (string \<times> real \<times> real) list"
  have h: "?ps \<noteq> []" by simp
  have l: "length ?ps \<le> length cores" by (simp add: cores_def)
  have t: "\<forall>p\<in>set ?ps. 0 \<le> taxa p" by simp
  have s: "(0::real) \<le> 0" "(0::real) \<le> 0.045" by simp_all
  have a: "?sim ?a = (2201.5, [1000, 1600, 2260], 201.5, 0.1)"
    by (simp add: simular_produto_def simular_valor_futuro_def calcular_rentabilidade_mensal_def
        mes_def Let_def upto_rec1 obter_aliquota_ir_def)
  have b: "?sim ?b = (2260, [1000, 1600, 2260], 260, 0.1)"
    by (simp add: simular_produto_def simular_valor_futuro_def calcular_rentabilidade_mensal_def
        mes_def Let_def upto_rec1)
  have c: "?sim ?c = (2260, [1000, 1600, 2260], 260, 0.1)"
    by (simp add: simular_produto_def simular_valor_futuro_def calcular_rentabilidade_mensal_def
        mes_def Let_def upto_rec1)
  have out: "resultados ?ps 2 1000 500 0 0.045 = Inr ?out"
    using a b c l by (simp add: resultados_map saldo_final_def rendimento_bruto_def)
  from melhor_first_maximum [OF h l t s, of 2 1000 500]
  obtain rs i where rs: "resultados ?ps 2 1000 500 0 0.045 = Inr rs"
    and i: "i < length ?ps"
    and m: "melhor rs
              = Inr (nome (?ps ! i), saldo_final (?sim (?ps ! i)), rendimento_bruto (?sim (?ps ! i)))"
    and ub: "\<forall>j<length ?ps. saldo_final (?sim (?ps ! j)) \<le> saldo_final (?sim (?ps ! i))"
    and first: "\<forall>j<i. saldo_final (?sim (?ps ! j)) < saldo_final (?sim (?ps ! i))"
    by blast
  from rs out have rs': "rs = ?out" by simp
  from i consider "i = 0" | "i = 1" | "i = 2" by fastforce
  then have "i = 1"
  proof cases
    case 1
    have "saldo_final (?sim ?b) \<le> saldo_final (?sim (?ps ! i))"
      using ub [rule_format, of 1] by simp
    then show ?thesis unfolding 1 using a b by (simp add: saldo_final_def)
  next
    case 2
    then show ?thesis .
  next
    case 3
    have "saldo_final (?sim ?b) < saldo_final (?sim (?ps ! i))"
      using first [rule_format, of 1] 3 by simp
    then show ?thesis unfolding 3 using b c by (simp add: saldo_final_def)
  qed
  with m have "melhor rs = Inr (''LCI A'', 2260, 260)"
    using b by (simp add: saldo_final_def rendimento_bruto_def)
  then have "melhor ?out = Inr (''LCI A'', 2260, 260)"
    unfolding rs' .
  with h l s out show ?thesis by simp
qed

theorem melhor_first_maximum_counterexample:
  "[\<lparr>nome = ''CDB - Prefixada'', tipo = ''Prefixada'', taxa = 0.1175, isento_ir = False\<rparr>,
    \<lparr>nome = ''LCI - Pos CDI'', tipo = ''CDI'', taxa = 0.94, isento_ir = True\<rparr>,
    \<lparr>nome = ''LCA - IPCA +'', tipo = ''IPCA +'', taxa = 0.058, isento_ir = True\<rparr>,
    \<lparr>nome = ''CDB - Pos CDI'', tipo = ''CDI'', taxa = 0.9, isento_ir = False\<rparr>] \<noteq> [] \<and>
   resultados
     [\<lparr>nome = ''CDB - Prefixada'', tipo = ''Prefixada'', taxa = 0.1175, isento_ir = False\<rparr>,
      \<lparr>nome = ''LCI - Pos CDI'', tipo = ''CDI'', taxa = 0.94, isento_ir = True\<rparr>,
      \<lparr>nome = ''LCA - IPCA +'', tipo = ''IPCA +'', taxa = 0.058, isento_ir = True\<rparr>,
      \<lparr>nome = ''CDB - Pos CDI'', tipo = ''CDI'', taxa = 0.9, isento_ir = False\<rparr>]
     36 1000 500 0.1375 0.045
     = Inl IndexError"
  by (simp add: resultados_map cores_def)

end
